theory Spec2Isabelle
  imports Main
begin

section \<open>Errors\<close>

text \<open>
  A Go \<^verbatim>\<open>error\<close> is a value; \<^verbatim>\<open>nil\<close> is \<open>None\<close> of \<open>error option\<close>. Each constructor
  stands for one way the source builds an error: \<open>ErrorString\<close> for \<^verbatim>\<open>errors.New\<close> and for
  \<^verbatim>\<open>fmt.Errorf\<close> without a wrapped cause, \<open>Errors\<close> for the collection the struct validator
  returns (a \<open>FieldError\<close> names the field, the rule that failed and the message of the
  tag; \<open>FieldErrors\<close> is a collection inside the collection), \<open>External\<close> for an error produced inside a library (transport, JSON, URL parsing),
  and one constructor for each \<^verbatim>\<open>fmt.Errorf\<close> format of the API client, carrying the
  arguments of the format instead of the rendered text.
\<close>

datatype rule = Required | Alphanum | AlphanumUnderscore | GitURI | StringLength nat nat

datatype field_error =
    FieldError string rule "string option"
  | FieldErrors "field_error list"

datatype error =
    ErrorString string
  | Errors "field_error list"
  | External string
  | UnableToCreateBody error
  | UnableToCreateRequest error
  | UnableToMakeCall error
  | ErrorReadingBody int error
  | UnexpectedStatus int
  | UnexpectedStatusBody int string
  | UnableToParseResponse error

text \<open>\<^verbatim>\<open>'%s'\<close> in a format string: the argument between two single quotes.\<close>

definition sq :: "string \<Rightarrow> string" where
  "sq s = CHR 0x27 # s @ [CHR 0x27]"

text \<open>\<^verbatim>\<open>strings.Join\<close>.\<close>

fun Join :: "string list \<Rightarrow> string \<Rightarrow> string" where
  "Join [] sep = []"
| "Join [x] sep = x"
| "Join (x # y # ys) sep = x @ sep @ Join (y # ys) sep"

section \<open>Regular expressions\<close>

text \<open>
  The patterns of the source use literals, character classes, grouping, alternation,
  \<^verbatim>\<open>?\<close>, \<^verbatim>\<open>*\<close>, \<^verbatim>\<open>+\<close> and the anchors \<^verbatim>\<open>^\<close> and \<^verbatim>\<open>$\<close> at the two ends. A character class is
  the list of the characters it accepts. \<^verbatim>\<open>MatchString\<close> only says whether a match exists, so
  the matcher follows derivatives and needs no submatch positions.
\<close>

datatype regex =
    RNone
  | REps
  | RClass "char list"
  | RSeq regex regex
  | RAlt regex regex
  | RStar regex

fun nullable :: "regex \<Rightarrow> bool" where
  "nullable RNone = False"
| "nullable REps = True"
| "nullable (RClass cs) = False"
| "nullable (RSeq r s) = (nullable r \<and> nullable s)"
| "nullable (RAlt r s) = (nullable r \<or> nullable s)"
| "nullable (RStar r) = True"

fun rseq :: "regex \<Rightarrow> regex \<Rightarrow> regex" where
  "rseq RNone s = RNone"
| "rseq r RNone = RNone"
| "rseq REps s = s"
| "rseq r s = RSeq r s"

fun ralt :: "regex \<Rightarrow> regex \<Rightarrow> regex" where
  "ralt RNone s = s"
| "ralt r RNone = r"
| "ralt r s = RAlt r s"

fun rderiv :: "char \<Rightarrow> regex \<Rightarrow> regex" where
  "rderiv c RNone = RNone"
| "rderiv c REps = RNone"
| "rderiv c (RClass cs) = (if c \<in> set cs then REps else RNone)"
| "rderiv c (RSeq r s) =
     (if nullable r then ralt (rseq (rderiv c r) s) (rderiv c s) else rseq (rderiv c r) s)"
| "rderiv c (RAlt r s) = ralt (rderiv c r) (rderiv c s)"
| "rderiv c (RStar r) = rseq (rderiv c r) (RStar r)"

text \<open>The whole string matches.\<close>

fun match_all :: "regex \<Rightarrow> string \<Rightarrow> bool" where
  "match_all r [] = nullable r"
| "match_all r (c # cs) = match_all (rderiv c r) cs"

text \<open>Some prefix of the string matches.\<close>

fun match_prefix :: "regex \<Rightarrow> string \<Rightarrow> bool" where
  "match_prefix r [] = nullable r"
| "match_prefix r (c # cs) = (nullable r \<or> match_prefix (rderiv c r) cs)"

text \<open>Some suffix of the string matches, and some substring of it.\<close>

fun match_suffix :: "regex \<Rightarrow> string \<Rightarrow> bool" where
  "match_suffix r [] = nullable r"
| "match_suffix r (c # cs) = (match_all r (c # cs) \<or> match_suffix r cs)"

fun match_sub :: "regex \<Rightarrow> string \<Rightarrow> bool" where
  "match_sub r [] = nullable r"
| "match_sub r (c # cs) = (match_prefix r (c # cs) \<or> match_sub r cs)"

text \<open>
  A compiled pattern: whether it starts with \<^verbatim>\<open>^\<close>, its body, whether it ends with \<^verbatim>\<open>$\<close>.
  \<^verbatim>\<open>MatchString\<close> looks for a match anywhere in the string unless an anchor pins it.
\<close>

record pattern =
  anchor_start :: bool
  body :: regex
  anchor_end :: bool

definition MatchString :: "pattern \<Rightarrow> string \<Rightarrow> bool" where
  "MatchString p s =
     (if anchor_start p
      then (if anchor_end p then match_all (body p) s else match_prefix (body p) s)
      else (if anchor_end p then match_suffix (body p) s else match_sub (body p) s))"

fun lit :: "string \<Rightarrow> regex" where
  "lit [] = REps"
| "lit [c] = RClass [c]"
| "lit (c # cs) = RSeq (RClass [c]) (lit cs)"

definition ropt :: "regex \<Rightarrow> regex" where
  "ropt r = RAlt r REps"

definition rplus :: "regex \<Rightarrow> regex" where
  "rplus r = RSeq r (RStar r)"

definition lower :: string where "lower = ''abcdefghijklmnopqrstuvwxyz''"
definition upper :: string where "upper = ''ABCDEFGHIJKLMNOPQRSTUVWXYZ''"
definition digit :: string where "digit = ''0123456789''"

text \<open>\<^verbatim>\<open>\w\<close> is \<^verbatim>\<open>[0-9A-Za-z_]\<close> in Go's syntax.\<close>

definition word :: string where
  "word = digit @ upper @ lower @ ''_''"

subsection \<open>The language of a pattern\<close>

text \<open>
  What a pattern means, apart from any matcher: the set of strings it describes. The
  matcher above is proved to decide it.
\<close>

inductive_set Lstar :: "string set \<Rightarrow> string set" for A :: "string set" where
  Lstar_nil: "[] \<in> Lstar A"
| Lstar_app: "u \<in> A \<Longrightarrow> v \<in> Lstar A \<Longrightarrow> u @ v \<in> Lstar A"

fun lang :: "regex \<Rightarrow> string set" where
  "lang RNone = {}"
| "lang REps = {[]}"
| "lang (RClass cs) = {[c] | c. c \<in> set cs}"
| "lang (RSeq r s) = {u @ v | u v. u \<in> lang r \<and> v \<in> lang s}"
| "lang (RAlt r s) = lang r \<union> lang s"
| "lang (RStar r) = Lstar (lang r)"

section \<open>Package validations\<close>

text \<open>
  The source holds the package in two versions. \<^verbatim>\<open>Validate\<close>, \<^verbatim>\<open>ValidateStruct\<close>,
  \<^verbatim>\<open>isAlphaNumbericUnderscore\<close>, \<^verbatim>\<open>IsValidARN\<close>, \<^verbatim>\<open>IsValidImageURI\<close> and \<^verbatim>\<open>isValidGitURI\<close>
  are those of the version package requests calls; \<^verbatim>\<open>isValidArgument\<close> exists only in the
  other one, where it is registered under the tag \<^verbatim>\<open>valid_argument\<close>.
\<close>

subsection \<open>Libraries outside the repository\<close>

text \<open>
  \<^verbatim>\<open>arn.IsARN\<close> of the AWS SDK and \<^verbatim>\<open>reference.ParseAnyReference\<close> of the distribution
  library are not part of the repository. The model takes them as parameters, so every
  theorem holds for whatever they compute. Of \<^verbatim>\<open>ParseAnyReference\<close> only the error is kept:
  the source discards the parsed reference.
\<close>

record extern =
  arn_IsARN :: "string \<Rightarrow> bool"
  reference_ParseAnyReference :: "string \<Rightarrow> error option"

subsection \<open>Validate\<close>

text \<open>
  \<^verbatim>\<open>Validate(validations ...func() error)\<close>: the closures run in order and the first error
  is returned.
\<close>

fun Validate :: "(unit \<Rightarrow> error option) list \<Rightarrow> error option" where
  "Validate [] = None"
| "Validate (v # vs) = (case v () of Some err \<Rightarrow> Some err | None \<Rightarrow> Validate vs)"

subsection \<open>The predicates\<close>

text \<open>\<^verbatim>\<open>^([a-zA-Z])[a-zA-Z0-9_]*$\<close>\<close>

definition alphaNumericUnderscorePattern :: pattern where
  "alphaNumericUnderscorePattern =
     \<lparr>anchor_start = True,
      body = RSeq (RClass (lower @ upper)) (RStar (RClass (lower @ upper @ digit @ ''_''))),
      anchor_end = True\<rparr>"

definition isAlphaNumbericUnderscore :: "string \<Rightarrow> bool" where
  "isAlphaNumbericUnderscore s = MatchString alphaNumericUnderscorePattern s"

definition IsValidARN :: "extern \<Rightarrow> string \<Rightarrow> bool" where
  "IsValidARN x s = arn_IsARN x s"

definition IsValidImageURI :: "extern \<Rightarrow> string \<Rightarrow> bool" where
  "IsValidImageURI x imageURI = (reference_ParseAnyReference x imageURI = None)"

text \<open>\<^verbatim>\<open>((git|ssh|https)|(git@[\w\.]+))(:(//)?)([\w\.@\:/\-~]+)(\.git)(/)?\<close>, with no anchor.\<close>

definition gitURIPattern :: pattern where
  "gitURIPattern =
     \<lparr>anchor_start = False,
      body =
        RSeq (RAlt (RAlt (lit ''git'') (RAlt (lit ''ssh'') (lit ''https'')))
                   (RSeq (lit ''git@'') (rplus (RClass (word @ ''.'')))))
       (RSeq (RSeq (lit '':'') (ropt (lit ''//'')))
       (RSeq (rplus (RClass (word @ ''.@:/-~'')))
       (RSeq (lit ''.git'')
             (ropt (lit ''/''))))),
      anchor_end = False\<rparr>"

definition isValidGitURI :: "string \<Rightarrow> bool" where
  "isValidGitURI s = MatchString gitURIPattern s"

text \<open>
  \<^verbatim>\<open>isValidArgument\<close> ranges over \<^verbatim>\<open>MapKeys()\<close>, the keys of the map in the order the runtime
  hands them out, and returns at the first key that is \<^verbatim>\<open>execute\<close> or \<^verbatim>\<open>init\<close>.
\<close>

fun isValidArgument :: "string list \<Rightarrow> bool" where
  "isValidArgument [] = False"
| "isValidArgument (key # keys) =
     (if key = ''execute'' \<or> key = ''init'' then True else isValidArgument keys)"

subsection \<open>ValidateStruct\<close>

text \<open>
  \<^verbatim>\<open>ValidateStruct\<close> registers the two custom validators (once: a tag that is already
  registered is left alone) and hands the value to \<^verbatim>\<open>govalidator.ValidateStruct\<close>, which
  reads the \<^verbatim>\<open>valid:"..."\<close> tag of every field. A tag is the list of its rules in the
  order they are written, each with the message after \<^verbatim>\<open>~\<close> when there is one. In the
  source only string fields carry a tag; slices, maps and nested structs have none. A
  field without a tag is not checked: that is the library's default, and the source
  does not switch it.
\<close>

type_synonym tag = "(rule \<times> string option) list"

datatype fvalue =
    VString tag string
  | VStrings "string list"
  | VStringMap "(string \<times> string) list"
  | VStringsMap "(string \<times> string list) list"
  | VStruct "field list"
and field = Field string fvalue

text \<open>The validators the source registers in \<^verbatim>\<open>CustomTypeTagMap\<close>; they run before the others.\<close>

fun is_custom :: "rule \<Rightarrow> bool" where
  "is_custom AlphanumUnderscore = True"
| "is_custom GitURI = True"
| "is_custom r = False"

text \<open>
  \<^verbatim>\<open>alphanum\<close> is govalidator's \<^verbatim>\<open>^[a-zA-Z0-9]+$\<close>. \<^verbatim>\<open>stringlength(min|max)\<close> counts runes;
  every tag of the source puts it after \<^verbatim>\<open>alphanum\<close> or \<^verbatim>\<open>alphanumunderscore\<close>, which only
  ASCII strings pass, and there runes and bytes are the same. \<^verbatim>\<open>required\<close> is decided
  before the other rules, on the empty value.
\<close>

definition alphanumPattern :: pattern where
  "alphanumPattern =
     \<lparr>anchor_start = True, body = rplus (RClass (lower @ upper @ digit)), anchor_end = True\<rparr>"

fun check_rule :: "rule \<Rightarrow> string \<Rightarrow> bool" where
  "check_rule Required s = True"
| "check_rule Alphanum s = MatchString alphanumPattern s"
| "check_rule AlphanumUnderscore s = isAlphaNumbericUnderscore s"
| "check_rule GitURI s = isValidGitURI s"
| "check_rule (StringLength lo hi) s = (lo \<le> length s \<and> length s \<le> hi)"

fun first_failure :: "tag \<Rightarrow> string \<Rightarrow> (rule \<times> string option) option" where
  "first_failure [] s = None"
| "first_failure ((r, m) # rs) s =
     (if check_rule r s then first_failure rs s else Some (r, m))"

text \<open>
  \<^verbatim>\<open>typeCheck\<close> on a string field. An empty value is checked against \<^verbatim>\<open>required\<close> only.
  Otherwise the custom validators of the tag all run, and the ones that fail make a
  collection of their own; when none fails, the built-in rules run in the order of the
  tag and the first that fails makes the field's error.
\<close>

definition typeCheck :: "string \<Rightarrow> tag \<Rightarrow> string \<Rightarrow> field_error list" where
  "typeCheck name t s =
     (if s = [] then
        (case map_of t Required of
           None \<Rightarrow> []
         | Some m \<Rightarrow> [FieldError name Required m])
      else
        (case filter (\<lambda>(r, m). is_custom r \<and> \<not> check_rule r s) t of
           e # es \<Rightarrow> [FieldErrors (map (\<lambda>(r, m). FieldError name r m) (e # es))]
         | [] \<Rightarrow>
             (case first_failure (filter (\<lambda>(r, m). \<not> is_custom r) t) s of
                None \<Rightarrow> []
              | Some (r, m) \<Rightarrow> [FieldError name r m])))"

text \<open>
  The validator visits the fields in declaration order and collects the error of every
  field that fails; the errors of a nested struct come as one collection. A field is
  known by the name in its \<^verbatim>\<open>json\<close> tag, the name the validator writes into the error.
\<close>

fun structErrors :: "field list \<Rightarrow> field_error list"
and fieldErrors :: "field \<Rightarrow> field_error list" where
  "structErrors [] = []"
| "structErrors (f # fs) = fieldErrors f @ structErrors fs"
| "fieldErrors (Field name (VString t s)) = typeCheck name t s"
| "fieldErrors (Field name (VStruct fs)) =
     (case structErrors fs of [] \<Rightarrow> [] | e # es \<Rightarrow> [FieldErrors (e # es)])"
| "fieldErrors (Field name (VStrings xs)) = []"
| "fieldErrors (Field name (VStringMap m)) = []"
| "fieldErrors (Field name (VStringsMap m)) = []"

definition ValidateStruct :: "field list \<Rightarrow> error option" where
  "ValidateStruct input =
     (case structErrors input of [] \<Rightarrow> None | e # es \<Rightarrow> Some (Errors (e # es)))"

section \<open>Package requests\<close>

text \<open>
  A Go map is an association list with one entry for each key; \<^verbatim>\<open>len\<close> is its length,
  \<^verbatim>\<open>m[k]\<close> with the comma-ok form is \<open>map_of\<close>, and \<^verbatim>\<open>range\<close> visits the entries in the
  order of the list, which stands for the order the runtime happens to choose.
\<close>

type_synonym 'v gomap = "(string \<times> 'v) list"

definition wf_map :: "'v gomap \<Rightarrow> bool" where
  "wf_map m = distinct (map fst m)"

subsection \<open>CreateWorkflow\<close>

record CreateWorkflow =
  Arguments :: "string list gomap"
  EnvironmentVariables :: "string gomap"
  Framework :: string
  Parameters :: "string gomap"
  ProjectName :: string
  TargetName :: string
  Type :: string
  WorkflowTemplateName :: string

definition CreateWorkflow_fields :: "CreateWorkflow \<Rightarrow> field list" where
  "CreateWorkflow_fields req =
     [Field ''arguments'' (VStringsMap (Arguments req)),
      Field ''environment_variables'' (VStringMap (EnvironmentVariables req)),
      Field ''framework'' (VString [] (Framework req)),
      Field ''parameters'' (VStringMap (Parameters req)),
      Field ''project_name''
        (VString [(Alphanum, Some ''project_name must be alphanumeric''),
                  (StringLength 4 32, Some ''project_name must be between 4 and 32 characters'')]
           (ProjectName req)),
      Field ''target_name''
        (VString [(AlphanumUnderscore, Some ''target_name must be alphanumericunderscore''),
                  (StringLength 4 32, Some ''target_name must be between 4 and 32 characters'')]
           (TargetName req)),
      Field ''type'' (VString [] (Type req)),
      Field ''workflow_template_name'' (VString [] (WorkflowTemplateName req))]"

definition argumentsError :: error where
  "argumentsError = ErrorString (''arguments must be one of '' @ sq ''execute init'')"

fun argumentKeys :: "string list \<Rightarrow> error option" where
  "argumentKeys [] = None"
| "argumentKeys (k # ks) =
     (if k \<noteq> ''execute'' \<and> k \<noteq> ''init'' then Some argumentsError else argumentKeys ks)"

definition validateArguments :: "CreateWorkflow \<Rightarrow> error option" where
  "validateArguments req =
     (if length (Arguments req) = 0 then None
      else if length (Arguments req) > 2 then Some argumentsError
      else argumentKeys (map fst (Arguments req)))"

definition validateParameters :: "extern \<Rightarrow> CreateWorkflow \<Rightarrow> error option" where
  "validateParameters x req =
     (case map_of (Parameters req) ''execute_container_image_uri'' of
        None \<Rightarrow> Some (ErrorString ''parameter execute_container_image_uri is required'')
      | Some val \<Rightarrow>
          if \<not> IsValidImageURI x val
          then Some (ErrorString
                 ''parameter execute_container_image_uri must be a valid container uri'')
          else (case map_of (Parameters req) ''pre_container_image_uri'' of
                  None \<Rightarrow> None
                | Some val' \<Rightarrow>
                    if \<not> IsValidImageURI x val'
                    then Some (ErrorString
                           ''parameter pre_container_image_uri must be a valid container uri'')
                    else None))"

fun typeIn :: "string \<Rightarrow> string list \<Rightarrow> bool" where
  "typeIn ty [] = False"
| "typeIn ty (t # ts) = (if ty = t then True else typeIn ty ts)"

definition ValidateType :: "CreateWorkflow \<Rightarrow> string list \<Rightarrow> unit \<Rightarrow> error option" where
  "ValidateType req types = (\<lambda>_.
     if typeIn (Type req) types then None
     else Some (ErrorString (''type must be one of '' @ sq (Join types '' ''))))"

definition CreateWorkflow_Validate ::
  "extern \<Rightarrow> CreateWorkflow \<Rightarrow> (unit \<Rightarrow> error option) list \<Rightarrow> error option" where
  "CreateWorkflow_Validate x req optionalValidations =
     Validate ([\<lambda>_. ValidateStruct (CreateWorkflow_fields req),
                \<lambda>_. validateArguments req,
                \<lambda>_. validateParameters x req] @ optionalValidations)"

subsection \<open>CreateTarget\<close>

record TargetProperties =
  CredentialType :: string
  PolicyArns :: "string list"
  PolicyDocument :: string
  RoleArn :: string

record CreateTarget =
  Name :: string
  Properties :: TargetProperties
  Type :: string

definition TargetProperties_fields :: "TargetProperties \<Rightarrow> field list" where
  "TargetProperties_fields p =
     [Field ''credential_type'' (VString [] (CredentialType p)),
      Field ''policy_arns'' (VStrings (PolicyArns p)),
      Field ''policy_document'' (VString [] (PolicyDocument p)),
      Field ''role_arn'' (VString [] (RoleArn p))]"

definition CreateTarget_fields :: "CreateTarget \<Rightarrow> field list" where
  "CreateTarget_fields req =
     [Field ''name''
        (VString [(Required, Some ''name is required''),
                  (AlphanumUnderscore, Some ''name must be alphanumeric underscore''),
                  (StringLength 4 32, Some ''name must be between 4 and 32 characters'')]
           (Name req)),
      Field ''properties'' (VStruct (TargetProperties_fields (Properties req))),
      Field ''type'' (VString [] (CreateTarget.Type req))]"

fun policyArns :: "extern \<Rightarrow> string list \<Rightarrow> error option" where
  "policyArns x [] = None"
| "policyArns x (arn # arns) =
     (if \<not> IsValidARN x arn then Some (ErrorString ''policy_arns contains an invalid arn'')
      else policyArns x arns)"

definition validateTargetProperties :: "extern \<Rightarrow> CreateTarget \<Rightarrow> error option" where
  "validateTargetProperties x req =
     (if CredentialType (Properties req) \<noteq> ''vault''
      then Some (ErrorString (''credential_type must be one of '' @ sq ''vault''))
      else if \<not> IsValidARN x (RoleArn (Properties req))
      then Some (ErrorString ''role_arn must be a valid arn'')
      else if length (PolicyArns (Properties req)) > 5
      then Some (ErrorString ''policy_arns cannot be more than 5'')
      else policyArns x (PolicyArns (Properties req)))"

definition CreateTarget_Validate :: "extern \<Rightarrow> CreateTarget \<Rightarrow> error option" where
  "CreateTarget_Validate x req =
     (if CreateTarget.Type req \<noteq> ''aws_account''
      then Some (ErrorString (''type must be one of '' @ sq ''aws_account''))
      else Validate [\<lambda>_. ValidateStruct (CreateTarget_fields req),
                     \<lambda>_. validateTargetProperties x req])"

subsection \<open>TargetOperation\<close>

record TargetOperation =
  Path :: string
  SHA :: string
  Type :: string

definition TargetOperation_fields :: "TargetOperation \<Rightarrow> field list" where
  "TargetOperation_fields req =
     [Field ''path'' (VString [(Required, Some ''path is required'')] (Path req)),
      Field ''sha'' (VString [(Required, Some ''sha is required''), (Alphanum, None)] (SHA req)),
      Field ''type'' (VString [(Required, Some ''type is required'')] (TargetOperation.Type req))]"

definition TargetOperation_Validate :: "TargetOperation \<Rightarrow> error option" where
  "TargetOperation_Validate req = ValidateStruct (TargetOperation_fields req)"

section \<open>Package api\<close>

text \<open>
  The source holds the client in two versions as well. The model follows the one that
  has \<^verbatim>\<open>targetOperation\<close>, \<^verbatim>\<open>getRequest\<close>, \<^verbatim>\<open>GetLogs\<close> and \<^verbatim>\<open>StreamLogs\<close>.
\<close>

subsection \<open>Requests, responses and the transport\<close>

text \<open>
  An \<^verbatim>\<open>http.Request\<close> as far as the client fills it in. \<^verbatim>\<open>Header.Add\<close> appends an entry.
\<close>

record request =
  Method :: string
  URL :: string
  Header :: "(string \<times> string) list"
  content :: "string option"

text \<open>
  A response body is a reader: it delivers \<open>chunks\<close>, one for each \<^verbatim>\<open>Read\<close> that returns
  data, and then ends, with \<^verbatim>\<open>io.EOF\<close> when the peer closed the stream (\<open>ending = None\<close>) or
  with a transport error.
\<close>

record reader =
  chunks :: "string list"
  ending :: "error option"

record response =
  StatusCode :: int
  Body :: reader

text \<open>\<^verbatim>\<open>io.ReadAll\<close>: all the data when the reader ends with EOF, the error otherwise.\<close>

definition ReadAll :: "reader \<Rightarrow> error + string" where
  "ReadAll b = (case ending b of None \<Rightarrow> Inr (concat (chunks b)) | Some err \<Rightarrow> Inl err)"

text \<open>
  An \<^verbatim>\<open>io.Writer\<close>, seen from outside: given what it has received so far and the next
  slice, it either takes the whole slice (\<open>None\<close>) or takes the first \<open>n\<close> bytes and fails.
  The state of the sink is the bytes it has received.
\<close>

type_synonym writer = "string \<Rightarrow> string \<Rightarrow> (nat \<times> error) option"

text \<open>
  \<^verbatim>\<open>io.Copy\<close>: every chunk read is written to the sink; a failed write ends the copy with
  the writer's error, the end of the reader ends it with \<^verbatim>\<open>nil\<close> on EOF and with the
  reader's error otherwise.
\<close>

fun Copy :: "writer \<Rightarrow> string \<Rightarrow> string list \<Rightarrow> error option \<Rightarrow> error option \<times> string" where
  "Copy w sink [] e = (e, sink)"
| "Copy w sink (p # ps) e =
     (if p = [] then Copy w sink ps e
      else (case w sink p of
              None \<Rightarrow> Copy w (sink @ p) ps e
            | Some (n, err) \<Rightarrow> (Some err, sink @ take n p)))"

text \<open>
  The sink takes every write of such a copy: each chunk that holds data is accepted
  whole, by the sink as it is after the chunks before it.
\<close>

fun accepts :: "writer \<Rightarrow> string \<Rightarrow> string list \<Rightarrow> bool" where
  "accepts w sink [] = True"
| "accepts w sink (p # ps) =
     (if p = [] then accepts w sink ps
      else w sink p = None \<and> accepts w (sink @ p) ps)"

text \<open>
  What the client takes from its libraries. \<open>NewRequest_error\<close> is the error of
  \<^verbatim>\<open>http.NewRequestWithContext\<close> for a method and a URL, if it has one (a URL that does not
  parse, a nil context). \<^verbatim>\<open>json.Marshal\<close> is given for the two values the client encodes;
  the type \<open>'i\<close> of the input of \<^verbatim>\<open>ExecuteWorkflow\<close> and the type \<open>'j\<close> of a decoded response
  are declared in packages outside the source at hand and stay abstract.
\<close>

record ('i, 'j) lib =
  NewRequest_error :: "string \<Rightarrow> string \<Rightarrow> error option"
  Marshal_TargetOperation :: "TargetOperation \<Rightarrow> error + string"
  Marshal_input :: "'i \<Rightarrow> error + string"
  Unmarshal :: "string \<Rightarrow> error + 'j"

definition NewRequestWithContext ::
  "('i, 'j) lib \<Rightarrow> string \<Rightarrow> string \<Rightarrow> string option \<Rightarrow> error + request" where
  "NewRequestWithContext L m u b =
     (case NewRequest_error L m u of
        Some err \<Rightarrow> Inl err
      | None \<Rightarrow> Inr \<lparr>Method = m, URL = u, Header = [], content = b\<rparr>)"

text \<open>
  The client. \<open>httpClient\<close> is the \<^verbatim>\<open>Do\<close> of the transport: an error or a response. Every
  operation returns its result together with the requests it handed to \<^verbatim>\<open>Do\<close>, in order.
\<close>

record Client =
  authToken :: string
  httpClient :: "request \<Rightarrow> error + response"
  endpoint :: string

record TargetOperationInput =
  Path :: string
  ProjectName :: string
  SHA :: string
  TargetName :: string

definition diff :: string where "diff = ''diff''"
definition sync :: string where "sync = ''sync''"

subsection \<open>The operations\<close>

definition getRequest ::
  "('i, 'j) lib \<Rightarrow> Client \<Rightarrow> string \<Rightarrow> (error + string) \<times> request list" where
  "getRequest L c u =
     (case NewRequestWithContext L ''GET'' u None of
        Inl err \<Rightarrow> (Inl (UnableToCreateRequest err), [])
      | Inr req \<Rightarrow>
          (case httpClient c req of
             Inl err \<Rightarrow> (Inl (UnableToMakeCall err), [req])
           | Inr resp \<Rightarrow>
               (case ReadAll (Body resp) of
                  Inl err \<Rightarrow> (Inl (ErrorReadingBody (StatusCode resp) err), [req])
                | Inr b \<Rightarrow>
                    if StatusCode resp \<noteq> 200
                    then (Inl (UnexpectedStatusBody (StatusCode resp) b), [req])
                    else (Inr b, [req]))))"

definition GetLogs ::
  "('i, 'j) lib \<Rightarrow> Client \<Rightarrow> string \<Rightarrow> (error + 'j) \<times> request list" where
  "GetLogs L c workflowName =
     (case getRequest L c (endpoint c @ ''/workflows/'' @ workflowName @ ''/logs'') of
        (Inl err, sent) \<Rightarrow> (Inl err, sent)
      | (Inr b, sent) \<Rightarrow>
          (case Unmarshal L b of
             Inl err \<Rightarrow> (Inl (UnableToParseResponse err), sent)
           | Inr output \<Rightarrow> (Inr output, sent)))"

definition GetWorkflowStatus ::
  "('i, 'j) lib \<Rightarrow> Client \<Rightarrow> string \<Rightarrow> (error + 'j) \<times> request list" where
  "GetWorkflowStatus L c workflowName =
     (case getRequest L c (endpoint c @ ''/workflows/'' @ workflowName) of
        (Inl err, sent) \<Rightarrow> (Inl err, sent)
      | (Inr b, sent) \<Rightarrow>
          (case Unmarshal L b of
             Inl err \<Rightarrow> (Inl (UnableToParseResponse err), sent)
           | Inr output \<Rightarrow> (Inr output, sent)))"

definition GetWorkflows ::
  "('i, 'j) lib \<Rightarrow> Client \<Rightarrow> string \<Rightarrow> string \<Rightarrow> (error + 'j) \<times> request list" where
  "GetWorkflows L c project target =
     (case getRequest L c
             (endpoint c @ ''/projects/'' @ project @ ''/targets/'' @ target @ ''/workflows'') of
        (Inl err, sent) \<Rightarrow> (Inl err, sent)
      | (Inr b, sent) \<Rightarrow>
          (case Unmarshal L b of
             Inl err \<Rightarrow> (Inl (UnableToParseResponse err), sent)
           | Inr output \<Rightarrow> (Inr output, sent)))"

text \<open>
  \<^verbatim>\<open>StreamLogs\<close> also returns what the sink has received when the call ends. The status
  is tested once more after the copy, as in the source.
\<close>

definition StreamLogs ::
  "('i, 'j) lib \<Rightarrow> Client \<Rightarrow> writer \<Rightarrow> string \<Rightarrow> string \<Rightarrow>
     error option \<times> string \<times> request list" where
  "StreamLogs L c w sink workflowName =
     (case NewRequestWithContext L ''GET''
             (endpoint c @ ''/workflows/'' @ workflowName @ ''/logstream'') None of
        Inl err \<Rightarrow> (Some (UnableToCreateRequest err), sink, [])
      | Inr req \<Rightarrow>
          (case httpClient c req of
             Inl err \<Rightarrow> (Some (UnableToMakeCall err), sink, [req])
           | Inr resp \<Rightarrow>
               if StatusCode resp \<noteq> 200
               then (Some (UnexpectedStatus (StatusCode resp)), sink, [req])
               else (case Copy w sink (chunks (Body resp)) (ending (Body resp)) of
                       (Some err, sink') \<Rightarrow>
                         (Some (ErrorReadingBody (StatusCode resp) err), sink', [req])
                     | (None, sink') \<Rightarrow>
                         if StatusCode resp \<noteq> 200
                         then (Some (UnexpectedStatus (StatusCode resp)), sink', [req])
                         else (None, sink', [req]))))"

definition targetOperation ::
  "('i, 'j) lib \<Rightarrow> Client \<Rightarrow> TargetOperationInput \<Rightarrow> string \<Rightarrow>
     (error + 'j) \<times> request list" where
  "targetOperation L c input operationType =
     (let u = endpoint c @ ''/projects/'' @ TargetOperationInput.ProjectName input @
              ''/targets/'' @ TargetOperationInput.TargetName input @ ''/operations'';
          targetReq = \<lparr>TargetOperation.Path = TargetOperationInput.Path input,
                       TargetOperation.SHA = TargetOperationInput.SHA input,
                       TargetOperation.Type = operationType\<rparr>
      in case TargetOperation_Validate targetReq of
           Some err \<Rightarrow> (Inl err, [])
         | None \<Rightarrow>
             (case Marshal_TargetOperation L targetReq of
                Inl err \<Rightarrow> (Inl (UnableToCreateBody err), [])
              | Inr reqBody \<Rightarrow>
                (case NewRequestWithContext L ''POST'' u (Some reqBody) of
                   Inl err \<Rightarrow> (Inl (UnableToCreateRequest err), [])
                 | Inr req0 \<Rightarrow>
                     (let req = req0\<lparr>Header := Header req0 @
                                  [(''Authorization'', authToken c)]\<rparr> in
                      case httpClient c req of
                        Inl err \<Rightarrow> (Inl (UnableToMakeCall err), [req])
                      | Inr resp \<Rightarrow>
                          (case ReadAll (Body resp) of
                             Inl err \<Rightarrow>
                               (Inl (ErrorReadingBody (StatusCode resp) err), [req])
                           | Inr b \<Rightarrow>
                               if StatusCode resp \<ge> 300 \<or> StatusCode resp < 200
                               then (Inl (UnexpectedStatusBody (StatusCode resp) b), [req])
                               else (case Unmarshal L b of
                                       Inl err \<Rightarrow> (Inl (UnableToParseResponse err), [req])
                                     | Inr output \<Rightarrow> (Inr output, [req])))))))"

definition Diff ::
  "('i, 'j) lib \<Rightarrow> Client \<Rightarrow> TargetOperationInput \<Rightarrow> (error + 'j) \<times> request list" where
  "Diff L c input =
     (case targetOperation L c input diff of
        (Inl err, sent) \<Rightarrow> (Inl err, sent)
      | (Inr output, sent) \<Rightarrow> (Inr output, sent))"

definition Sync ::
  "('i, 'j) lib \<Rightarrow> Client \<Rightarrow> TargetOperationInput \<Rightarrow> (error + 'j) \<times> request list" where
  "Sync L c input =
     (case targetOperation L c input sync of
        (Inl err, sent) \<Rightarrow> (Inl err, sent)
      | (Inr output, sent) \<Rightarrow> (Inr output, sent))"

definition ExecuteWorkflow ::
  "('i, 'j) lib \<Rightarrow> Client \<Rightarrow> 'i \<Rightarrow> (error + 'j) \<times> request list" where
  "ExecuteWorkflow L c input =
     (let u = endpoint c @ ''/workflows''
      in case Marshal_input L input of
           Inl err \<Rightarrow> (Inl (UnableToCreateBody err), [])
         | Inr reqBody \<Rightarrow>
                (case NewRequestWithContext L ''POST'' u (Some reqBody) of
                   Inl err \<Rightarrow> (Inl (UnableToCreateRequest err), [])
                 | Inr req0 \<Rightarrow>
                     (let req = req0\<lparr>Header := Header req0 @
                                  [(''Authorization'', authToken c)]\<rparr> in
                      case httpClient c req of
                        Inl err \<Rightarrow> (Inl (UnableToMakeCall err), [req])
                      | Inr resp \<Rightarrow>
                          (case ReadAll (Body resp) of
                             Inl err \<Rightarrow>
                               (Inl (ErrorReadingBody (StatusCode resp) err), [req])
                           | Inr b \<Rightarrow>
                               if StatusCode resp \<ge> 300 \<or> StatusCode resp < 200
                               then (Inl (UnexpectedStatusBody (StatusCode resp) b), [req])
                               else (case Unmarshal L b of
                                       Inl err \<Rightarrow> (Inl (UnableToParseResponse err), [req])
                                     | Inr output \<Rightarrow> (Inr output, [req]))))))"

section \<open>Values for running the model\<close>

text \<open>
  An instance of the outside libraries: \<^verbatim>\<open>IsARN\<close> as the SDK documents it (the prefix
  \<^verbatim>\<open>arn:\<close> and at least six sections between colons), and a reference parser that knows
  two image references and rejects everything else.
\<close>

definition example_extern :: extern where
  "example_extern =
     \<lparr>arn_IsARN = (\<lambda>s. take 4 s = ''arn:'' \<and> 5 \<le> length (filter (\<lambda>c. c = CHR '':'') s)),
      reference_ParseAnyReference =
        (\<lambda>s. if s \<in> set [''alpine:3.18'', ''ghcr.io/acme/runner:1.4''] then None
             else Some (External ''invalid reference format''))\<rparr>"

definition execute_only_workflow :: CreateWorkflow where
  "execute_only_workflow =
     \<lparr>Arguments = [(''execute'', [''plan''])],
      EnvironmentVariables = [],
      Framework = ''terraform'',
      Parameters = [(''execute_container_image_uri'', ''alpine:3.18'')],
      ProjectName = ''demo1'',
      TargetName = ''demo_target'',
      Type = ''sync'',
      WorkflowTemplateName = ''template''\<rparr>"

definition example_target :: CreateTarget where
  "example_target =
     \<lparr>Name = ''demo_target'',
      Properties =
        \<lparr>CredentialType = ''vault'',
         PolicyArns = [''arn:aws:iam::aws:policy/ReadOnlyAccess''],
         PolicyDocument = ''{}'',
         RoleArn = ''arn:aws:iam::123456789012:role/deploy''\<rparr>,
      Type = ''aws_account''\<rparr>"

text \<open>
  A library instance whose encoder writes the three fields of a target operation one
  after the other, and a client whose transport answers every request with the given
  status and body and then closes the stream.
\<close>

definition example_lib :: "(string, string) lib" where
  "example_lib =
     \<lparr>NewRequest_error = (\<lambda>m u. None),
      Marshal_TargetOperation =
        (\<lambda>r. Inr (TargetOperation.Path r @ '' '' @ TargetOperation.SHA r @ '' '' @
                   TargetOperation.Type r)),
      Marshal_input = Inr,
      Unmarshal = Inr\<rparr>"

definition example_client :: "int \<Rightarrow> string list \<Rightarrow> Client" where
  "example_client code data =
     \<lparr>authToken = ''secret-token'',
      httpClient = (\<lambda>req. Inr \<lparr>StatusCode = code, Body = \<lparr>chunks = data, ending = None\<rparr>\<rparr>),
      endpoint = ''https://localhost:8443''\<rparr>"

definition example_input :: TargetOperationInput where
  "example_input =
     \<lparr>Path = ''infra/'', ProjectName = ''demo-proj'', SHA = ''abc123'',
      TargetName = ''demo_target''\<rparr>"

text \<open>
  A sink that takes every slice, and a sink with room for \<open>n\<close> bytes in all, which takes
  what still fits of a slice and fails on the rest.
\<close>

definition accepting :: writer where
  "accepting = (\<lambda>sink p. None)"

definition room_for :: "nat \<Rightarrow> writer" where
  "room_for n = (\<lambda>sink p.
     if length sink + length p \<le> n then None
     else Some (n - length sink, External ''no space left''))"

section \<open>The matcher decides the language\<close>

lemma nullable_lang: "nullable r \<longleftrightarrow> [] \<in> lang r"
  by (induction r) (auto intro: Lstar_nil)

lemma lang_rseq: "lang (rseq r s) = lang (RSeq r s)"
  by (induction r s rule: rseq.induct) auto

lemma lang_ralt: "lang (ralt r s) = lang (RAlt r s)"
  by (induction r s rule: ralt.induct) auto

lemma Lstar_Cons_split:
  assumes "x \<in> Lstar A" and "x = c # w"
  shows "\<exists>u v. w = u @ v \<and> c # u \<in> A \<and> v \<in> Lstar A"
  using assms
proof (induction arbitrary: w rule: Lstar.induct)
  case Lstar_nil
  then show ?case by simp
next
  case (Lstar_app u v)
  show ?case
  proof (cases u)
    case Nil
    with Lstar_app show ?thesis by simp
  next
    case (Cons a u')
    with Lstar_app have "w = u' @ v" "c # u' \<in> A" by auto
    with Lstar_app(2) show ?thesis by blast
  qed
qed

lemma Lstar_Cons: "c # w \<in> Lstar A \<longleftrightarrow> (\<exists>u v. w = u @ v \<and> c # u \<in> A \<and> v \<in> Lstar A)"
proof
  assume "c # w \<in> Lstar A"
  then show "\<exists>u v. w = u @ v \<and> c # u \<in> A \<and> v \<in> Lstar A"
    by (rule Lstar_Cons_split) simp
next
  assume "\<exists>u v. w = u @ v \<and> c # u \<in> A \<and> v \<in> Lstar A"
  then obtain u v where "w = u @ v" "c # u \<in> A" "v \<in> Lstar A" by blast
  then show "c # w \<in> Lstar A"
    using Lstar_app [of "c # u" A v] by simp
qed

lemma lang_rderiv: "lang (rderiv c r) = {w. c # w \<in> lang r}"
proof (induction r)
  case (RSeq r s)
  then show ?case
    by (auto simp: lang_rseq lang_ralt nullable_lang Cons_eq_append_conv)
next
  case (RStar r)
  then show ?case
    by (auto simp: lang_rseq Lstar_Cons)
qed (auto simp: lang_ralt)

lemma match_all_lang: "match_all r s \<longleftrightarrow> s \<in> lang r"
  by (induction s arbitrary: r) (simp_all add: nullable_lang lang_rderiv)

lemma match_prefix_lang: "match_prefix r s \<longleftrightarrow> (\<exists>u v. s = u @ v \<and> u \<in> lang r)"
proof (induction s arbitrary: r)
  case Nil
  then show ?case by (simp add: nullable_lang)
next
  case (Cons c cs)
  show ?case
    by (auto simp: Cons nullable_lang lang_rderiv Cons_eq_append_conv)
qed

lemma match_suffix_lang: "match_suffix r s \<longleftrightarrow> (\<exists>u v. s = u @ v \<and> v \<in> lang r)"
proof (induction s)
  case Nil
  then show ?case by (simp add: nullable_lang)
next
  case (Cons c cs)
  show ?case
    unfolding match_suffix.simps Cons match_all_lang
    by (auto simp: Cons_eq_append_conv)
qed

lemma match_sub_lang: "match_sub r s \<longleftrightarrow> (\<exists>u v w. s = u @ v @ w \<and> v \<in> lang r)"
proof (induction s)
  case Nil
  then show ?case by (simp add: nullable_lang)
next
  case (Cons c cs)
  show ?case
    unfolding match_sub.simps Cons match_prefix_lang
    by (auto simp: Cons_eq_append_conv) blast+
qed


lemma Lstar_class: "w \<in> Lstar {[c] | c. c \<in> S} \<longleftrightarrow> set w \<subseteq> S"
proof (induction w)
  case Nil
  show ?case by (simp add: Lstar_nil)
next
  case (Cons a w)
  show ?case by (auto simp: Lstar_Cons Cons)
qed

lemma isValidGitURI_lang:
  "isValidGitURI s \<longleftrightarrow> (\<exists>u v w. s = u @ v @ w \<and> v \<in> lang (body gitURIPattern))"
  by (simp add: isValidGitURI_def MatchString_def match_sub_lang gitURIPattern_def)

lemma class_then_star:
  "s \<in> lang (RSeq (RClass first) (RStar (RClass rest))) \<longleftrightarrow>
     (\<exists>c cs. s = c # cs \<and> c \<in> set first \<and> set cs \<subseteq> set rest)"
proof
  assume "s \<in> lang (RSeq (RClass first) (RStar (RClass rest)))"
  then obtain c v where "s = [c] @ v" "c \<in> set first" "v \<in> Lstar {[d] | d. d \<in> set rest}"
    by auto
  then show "\<exists>c cs. s = c # cs \<and> c \<in> set first \<and> set cs \<subseteq> set rest"
    by (simp add: Lstar_class)
next
  assume "\<exists>c cs. s = c # cs \<and> c \<in> set first \<and> set cs \<subseteq> set rest"
  then obtain c cs where s: "s = [c] @ cs" and c: "c \<in> set first" and r: "set cs \<subseteq> set rest"
    by auto
  from r have "cs \<in> Lstar {[d] | d. d \<in> set rest}"
    by (simp add: Lstar_class)
  with c have "[c] @ cs \<in> lang (RSeq (RClass first) (RStar (RClass rest)))"
    unfolding lang.simps by blast
  with s show "s \<in> lang (RSeq (RClass first) (RStar (RClass rest)))"
    by simp
qed

lemma isAlphaNumbericUnderscore_iff:
  "isAlphaNumbericUnderscore s \<longleftrightarrow>
     (\<exists>c cs. s = c # cs \<and> c \<in> set (lower @ upper) \<and>
             set cs \<subseteq> set (lower @ upper @ digit @ ''_''))"
  unfolding isAlphaNumbericUnderscore_def MatchString_def alphaNumericUnderscorePattern_def
  by (simp only: pattern.simps if_True match_all_lang class_then_star)

section \<open>The arguments map\<close>

lemma argumentKeys_None: "argumentKeys ks = None \<longleftrightarrow> set ks \<subseteq> {''execute'', ''init''}"
  by (induction ks) (auto simp: argumentsError_def)

text \<open>
  What \<^verbatim>\<open>validateArguments\<close> accepts: at most two entries, with no key other than
  \<^verbatim>\<open>execute\<close> and \<^verbatim>\<open>init\<close>.
\<close>

lemma validateArguments_None:
  "validateArguments req = None \<longleftrightarrow>
     length (Arguments req) \<le> 2 \<and> fst ` set (Arguments req) \<subseteq> {''execute'', ''init''}"
  by (auto simp: validateArguments_def argumentKeys_None)

text \<open>
  On a map, where no key comes twice, the bound on the length follows from the keys.
\<close>

lemma validateArguments_wf:
  assumes "wf_map (Arguments req)"
  shows "validateArguments req = None \<longleftrightarrow>
           fst ` set (Arguments req) \<subseteq> {''execute'', ''init''}"
proof -
  have "length (Arguments req) \<le> 2"
    if k: "fst ` set (Arguments req) \<subseteq> {''execute'', ''init''}"
  proof -
    have "length (Arguments req) = card (set (map fst (Arguments req)))"
      using assms distinct_card [of "map fst (Arguments req)"] by (simp add: wf_map_def)
    also have "\<dots> \<le> card {''execute'', ''init''}"
      using k by (intro card_mono) auto
    also have "\<dots> = 2" by simp
    finally show ?thesis .
  qed
  then show ?thesis
    by (auto simp: validateArguments_None)
qed

text \<open>
  C1. The arguments map is valid when it is empty or has exactly the two keys
  \<^verbatim>\<open>execute\<close> and \<^verbatim>\<open>init\<close>; a map with only one of them is invalid. The comment above
  \<^verbatim>\<open>validateArguments\<close> lists the same two valid cases, but the function returns \<^verbatim>\<open>nil\<close> for
  a map whose only key is \<^verbatim>\<open>execute\<close>, and so does the whole validation of the request.
\<close>

theorem validateArguments_execute_alone:
  "map fst (Arguments execute_only_workflow) = [''execute''] \<and>
   validateArguments execute_only_workflow = None \<and>
   CreateWorkflow_Validate example_extern execute_only_workflow [] = None"
  by code_simp

section \<open>The presence guard on argument keys\<close>

text \<open>
  C4, as the claim states it, fails: a map with the keys \<^verbatim>\<open>execute\<close> and \<^verbatim>\<open>extra\<close> passes
  \<^verbatim>\<open>isValidArgument\<close>, and its key set is not a subset of \<^verbatim>\<open>{execute, init}\<close>.
\<close>

theorem isValidArgument_mixed_keys:
  "isValidArgument [''execute'', ''extra''] \<noteq>
     (set [''execute'', ''extra''] \<noteq> {} \<and>
      set [''execute'', ''extra''] \<subseteq> {''execute'', ''init''})"
  by simp

text \<open>
  C4, amended. \<^verbatim>\<open>isValidArgument\<close> is true exactly when at least one key of the map is
  \<^verbatim>\<open>execute\<close> or \<^verbatim>\<open>init\<close>, whatever the other keys are and in whatever order the keys
  come.
\<close>

theorem isValidArgument_iff:
  "isValidArgument keys \<longleftrightarrow> ''execute'' \<in> set keys \<or> ''init'' \<in> set keys"
  by (induction keys) auto

theorem isValidArgument_iff_witness:
  "isValidArgument [''extra'', ''init''] \<and> \<not> isValidArgument [''extra'', ''other'']"
  using isValidArgument_iff [of "[''extra'', ''init'']"]
    isValidArgument_iff [of "[''extra'', ''other'']"]
  by simp

section \<open>Git URIs\<close>

text \<open>
  C5. \<^verbatim>\<open>isValidGitURI\<close> is to accept only strings that end in \<^verbatim>\<open>.git\<close>, optionally
  followed by a slash. The pattern ends in \<^verbatim>\<open>(\.git)(/)?\<close> but has no anchors, unlike the
  pattern of \<^verbatim>\<open>isAlphaNumbericUnderscore\<close>, so a match anywhere inside the string is
  enough: the function accepts a URI that goes on after \<^verbatim>\<open>.git\<close>, and text around a URI.
\<close>

theorem isValidGitURI_unanchored:
  "isValidGitURI ''https://example.com/repo.github.io'' \<and>
   isValidGitURI ''see https:x.git!''"
  by code_simp

section \<open>CreateTarget\<close>

text \<open>
  C7. A CreateTarget request whose type is not \<^verbatim>\<open>aws_account\<close> gets the type error,
  whatever its other fields hold: the struct constraints and the checks of the target
  properties have no part in the result.
\<close>

theorem CreateTarget_type_first:
  "CreateTarget.Type req \<noteq> ''aws_account'' \<Longrightarrow>
     CreateTarget_Validate x req =
       Some (ErrorString (''type must be one of '' @ sq ''aws_account''))"
  by (simp add: CreateTarget_Validate_def)

theorem CreateTarget_type_first_witness:
  "CreateTarget_Validate example_extern
     (example_target\<lparr>Name := ''-'', CreateTarget.Type := ''gcp_project''\<rparr>) =
     Some (ErrorString (''type must be one of '' @ sq ''aws_account'')) \<and>
   validateTargetProperties example_extern
     (example_target\<lparr>Name := ''-'', CreateTarget.Type := ''gcp_project''\<rparr>) = None \<and>
   ValidateStruct (CreateTarget_fields
     (example_target\<lparr>Name := ''-'', CreateTarget.Type := ''gcp_project''\<rparr>)) =
     Some (Errors [FieldErrors [FieldError ''name'' AlphanumUnderscore
                                  (Some ''name must be alphanumeric underscore'')]])"
  using CreateTarget_type_first
    [of "example_target\<lparr>Name := ''-'', CreateTarget.Type := ''gcp_project''\<rparr>" example_extern]
  by code_simp

lemma typeCheck_untagged: "typeCheck name [] s = []"
  by (simp add: typeCheck_def)

text \<open>
  C9. Two CreateTarget requests that differ only in the policy document validate alike:
  no check reads that field.
\<close>

theorem CreateTarget_ignores_policy_document:
  fixes r1 r2 :: CreateTarget
  assumes "Name r1 = Name r2" and "CreateTarget.Type r1 = CreateTarget.Type r2"
    and "CredentialType (Properties r1) = CredentialType (Properties r2)"
    and "PolicyArns (Properties r1) = PolicyArns (Properties r2)"
    and "RoleArn (Properties r1) = RoleArn (Properties r2)"
  shows "CreateTarget_Validate x r1 = CreateTarget_Validate x r2"
proof -
  have s: "structErrors (CreateTarget_fields r1) = structErrors (CreateTarget_fields r2)"
    using assms(1)
    by (simp add: CreateTarget_fields_def TargetProperties_fields_def typeCheck_untagged)
  have p: "validateTargetProperties x r1 = validateTargetProperties x r2"
    unfolding validateTargetProperties_def assms(3-5) by (rule refl)
  show ?thesis
    using assms(2) by (simp add: CreateTarget_Validate_def ValidateStruct_def s p)
qed

theorem CreateTarget_ignores_policy_document_witness:
  "CreateTarget_Validate example_extern example_target = None \<and>
   CreateTarget_Validate example_extern
     (example_target\<lparr>Properties := (Properties example_target)\<lparr>PolicyDocument := ''''\<rparr>\<rparr>) = None"
proof -
  have v: "CreateTarget_Validate example_extern example_target = None"
    by code_simp
  have "CreateTarget_Validate example_extern example_target =
        CreateTarget_Validate example_extern
          (example_target\<lparr>Properties := (Properties example_target)\<lparr>PolicyDocument := ''''\<rparr>\<rparr>)"
    by (rule CreateTarget_ignores_policy_document) simp_all
  with v show ?thesis by simp
qed

section \<open>CreateWorkflow\<close>

text \<open>
  C8. The parameters of a CreateWorkflow request are valid exactly when the map has the
  key \<^verbatim>\<open>execute_container_image_uri\<close> with a valid container image URI and, if it has
  the key \<^verbatim>\<open>pre_container_image_uri\<close>, that value is a valid container image URI too.
  Without the first key the error names the missing parameter.
\<close>

theorem validateParameters_iff:
  "(validateParameters x req = None \<longleftrightarrow>
      (\<exists>v. map_of (Parameters req) ''execute_container_image_uri'' = Some v \<and>
           IsValidImageURI x v) \<and>
      (\<forall>v. map_of (Parameters req) ''pre_container_image_uri'' = Some v \<longrightarrow>
           IsValidImageURI x v)) \<and>
   (map_of (Parameters req) ''execute_container_image_uri'' = None \<longrightarrow>
      validateParameters x req =
        Some (ErrorString ''parameter execute_container_image_uri is required''))"
  by (auto simp: validateParameters_def split: option.splits)

theorem validateParameters_iff_witness:
  "validateParameters example_extern
     (execute_only_workflow\<lparr>Parameters :=
        [(''pre_container_image_uri'', ''ghcr.io/acme/runner:1.4''),
         (''execute_container_image_uri'', ''alpine:3.18'')]\<rparr>) = None \<and>
   validateParameters example_extern
     (execute_only_workflow\<lparr>Parameters :=
        [(''pre_container_image_uri'', ''ghcr.io/acme/runner:1.4'')]\<rparr>) =
     Some (ErrorString ''parameter execute_container_image_uri is required'')"
proof -
  let ?both = "execute_only_workflow\<lparr>Parameters :=
        [(''pre_container_image_uri'', ''ghcr.io/acme/runner:1.4''),
         (''execute_container_image_uri'', ''alpine:3.18'')]\<rparr>"
  let ?pre = "execute_only_workflow\<lparr>Parameters :=
        [(''pre_container_image_uri'', ''ghcr.io/acme/runner:1.4'')]\<rparr>"
  have e: "map_of (Parameters ?both) ''execute_container_image_uri'' = Some ''alpine:3.18''"
    by simp
  have p: "map_of (Parameters ?both) ''pre_container_image_uri'' =
             Some ''ghcr.io/acme/runner:1.4''"
    by simp
  have i: "IsValidImageURI example_extern ''alpine:3.18''"
          "IsValidImageURI example_extern ''ghcr.io/acme/runner:1.4''"
    by (simp_all add: IsValidImageURI_def example_extern_def)
  have n: "map_of (Parameters ?pre) ''execute_container_image_uri'' = None"
    by simp
  from validateParameters_iff [of example_extern ?both] e p i
  have "validateParameters example_extern ?both = None"
    by simp
  moreover from validateParameters_iff [of example_extern ?pre] n
  have "validateParameters example_extern ?pre =
          Some (ErrorString ''parameter execute_container_image_uri is required'')"
    by blast
  ultimately show ?thesis by simp
qed

text \<open>
  C10. With no optional validation, two CreateWorkflow requests that differ only in
  \<^verbatim>\<open>Type\<close>, \<^verbatim>\<open>Framework\<close>, \<^verbatim>\<open>EnvironmentVariables\<close> or \<^verbatim>\<open>WorkflowTemplateName\<close> validate
  alike: these fields have no tag and no check of the request reads them.
\<close>

theorem CreateWorkflow_ignores_untagged_fields:
  fixes r1 r2 :: CreateWorkflow
  assumes "Arguments r1 = Arguments r2" and "Parameters r1 = Parameters r2"
    and "CreateWorkflow.ProjectName r1 = CreateWorkflow.ProjectName r2"
    and "CreateWorkflow.TargetName r1 = CreateWorkflow.TargetName r2"
  shows "CreateWorkflow_Validate x r1 [] = CreateWorkflow_Validate x r2 []"
proof -
  have s: "structErrors (CreateWorkflow_fields r1) = structErrors (CreateWorkflow_fields r2)"
    using assms(3,4) by (simp add: CreateWorkflow_fields_def typeCheck_untagged)
  have a: "validateArguments r1 = validateArguments r2"
    unfolding validateArguments_def assms(1) by (rule refl)
  have p: "validateParameters x r1 = validateParameters x r2"
    unfolding validateParameters_def assms(2) by (rule refl)
  show ?thesis
    by (simp add: CreateWorkflow_Validate_def ValidateStruct_def s a p)
qed

theorem CreateWorkflow_ignores_untagged_fields_witness:
  "CreateWorkflow_Validate example_extern execute_only_workflow [] = None \<and>
   CreateWorkflow_Validate example_extern
     (execute_only_workflow\<lparr>EnvironmentVariables := [(''AWS_REGION'', ''us-west-2'')],
        Framework := '''', CreateWorkflow.Type := '''', WorkflowTemplateName := ''-''\<rparr>) [] = None"
proof -
  have v: "CreateWorkflow_Validate example_extern execute_only_workflow [] = None"
    by code_simp
  have "CreateWorkflow_Validate example_extern execute_only_workflow [] =
        CreateWorkflow_Validate example_extern
          (execute_only_workflow\<lparr>EnvironmentVariables := [(''AWS_REGION'', ''us-west-2'')],
             Framework := '''', CreateWorkflow.Type := '''', WorkflowTemplateName := ''-''\<rparr>) []"
    by (rule CreateWorkflow_ignores_untagged_fields) simp_all
  with v show ?thesis by simp
qed

section \<open>The client\<close>

lemma Copy_accepts:
  "accepts w sink ps \<Longrightarrow> Copy w sink ps e = (e, sink @ concat ps)"
  by (induction ps arbitrary: sink) simp_all

lemma Copy_refused:
  "\<not> accepts w sink ps \<Longrightarrow> \<exists>err. fst (Copy w sink ps e) = Some err"
  by (induction ps arbitrary: sink) (auto split: option.splits)

lemma accepts_always: "(\<And>s p. w s p = None) \<Longrightarrow> accepts w sink ps"
  by (induction ps arbitrary: sink) simp_all

text \<open>
  A copy ends without an error exactly when the reader ended with EOF and the sink took
  every write.
\<close>

lemma Copy_ok_iff: "fst (Copy w sink ps e) = None \<longleftrightarrow> e = None \<and> accepts w sink ps"
  using Copy_accepts [of w sink ps e] Copy_refused [of w sink ps e]
  by (cases "accepts w sink ps") auto

text \<open>
  C6, as the claim states it, fails: the status is 200 and the body delivers six bytes
  and closes, but the sink has room for three. The call returns the error of the sink,
  wrapped as an error of reading the body, and the sink holds three of the six bytes.
\<close>

theorem StreamLogs_sink_fails:
  "fst (StreamLogs example_lib (example_client 200 [''ab'', ''cd'', ''ef'']) (room_for 3)
          [] ''wf-1'') = Some (ErrorReadingBody 200 (External ''no space left'')) \<and>
   fst (snd (StreamLogs example_lib (example_client 200 [''ab'', ''cd'', ''ef'']) (room_for 3)
          [] ''wf-1'')) = ''abc''"
  by code_simp

text \<open>
  C6, amended. When the transport answers the request of \<^verbatim>\<open>StreamLogs\<close> with status 200
  and a body that delivers its bytes and then closes, and the sink takes every write of
  the copy, the sink has received exactly those bytes, after what it held before, and the
  call returns no error. When the status is not 200 the sink, whatever it is, has received
  nothing and the call returns the unexpected-status error with that status.
\<close>

theorem StreamLogs_status:
  assumes "NewRequest_error L ''GET''
             (endpoint c @ ''/workflows/'' @ workflowName @ ''/logstream'') = None"
    and "httpClient c
           \<lparr>Method = ''GET'', URL = endpoint c @ ''/workflows/'' @ workflowName @ ''/logstream'',
            Header = [], content = None\<rparr> = Inr resp"
  shows "(StatusCode resp = 200 \<and> ending (Body resp) = None \<and>
          accepts w sink (chunks (Body resp)) \<longrightarrow>
            fst (StreamLogs L c w sink workflowName) = None \<and>
            fst (snd (StreamLogs L c w sink workflowName)) =
              sink @ concat (chunks (Body resp))) \<and>
         (StatusCode resp \<noteq> 200 \<longrightarrow>
            fst (StreamLogs L c w sink workflowName) =
              Some (UnexpectedStatus (StatusCode resp)) \<and>
            fst (snd (StreamLogs L c w sink workflowName)) = sink)"
  using assms
  by (auto simp: StreamLogs_def NewRequestWithContext_def Copy_accepts)

theorem StreamLogs_status_witness:
  "accepts (room_for 6) [] [''ab'', ''cd'', ''ef''] \<and>
   fst (StreamLogs example_lib (example_client 200 [''ab'', ''cd'', ''ef'']) (room_for 6)
          [] ''wf-1'') = None \<and>
   fst (snd (StreamLogs example_lib (example_client 200 [''ab'', ''cd'', ''ef'']) (room_for 6)
          [] ''wf-1'')) = ''abcdef'' \<and>
   fst (StreamLogs example_lib (example_client 404 [''not found'']) (room_for 6)
          [] ''wf-1'') = Some (UnexpectedStatus 404) \<and>
   fst (snd (StreamLogs example_lib (example_client 404 [''not found'']) (room_for 6)
          [] ''wf-1'')) = []"
proof -
  have a: "accepts (room_for 6) [] [''ab'', ''cd'', ''ef'']"
    by (simp add: room_for_def)
  note ok = StreamLogs_status
    [of example_lib "example_client 200 [''ab'', ''cd'', ''ef'']" "''wf-1''"
      "\<lparr>StatusCode = 200, Body = \<lparr>chunks = [''ab'', ''cd'', ''ef''], ending = None\<rparr>\<rparr>"
      "room_for 6" "[]"]
  note missing = StreamLogs_status
    [of example_lib "example_client 404 [''not found'']" "''wf-1''"
      "\<lparr>StatusCode = 404, Body = \<lparr>chunks = [''not found''], ending = None\<rparr>\<rparr>"
      "room_for 6" "[]"]
  show ?thesis
    using a ok missing by (simp add: example_lib_def example_client_def)
qed

text \<open>
  With status 200 and a body that closes, the call returns no error only if the sink
  took every write: the condition on the sink cannot be dropped or made weaker.
\<close>

lemma StreamLogs_ok_only_if_accepted:
  assumes "NewRequest_error L ''GET''
             (endpoint c @ ''/workflows/'' @ workflowName @ ''/logstream'') = None"
    and "httpClient c
           \<lparr>Method = ''GET'', URL = endpoint c @ ''/workflows/'' @ workflowName @ ''/logstream'',
            Header = [], content = None\<rparr> = Inr resp"
    and "StatusCode resp = 200" and "ending (Body resp) = None"
    and "fst (StreamLogs L c w sink workflowName) = None"
  shows "accepts w sink (chunks (Body resp))"
proof (rule ccontr)
  assume "\<not> accepts w sink (chunks (Body resp))"
  then obtain err where "fst (Copy w sink (chunks (Body resp)) None) = Some err"
    using Copy_refused by blast
  with assms show False
    by (auto simp: StreamLogs_def NewRequestWithContext_def split: prod.splits option.splits)
qed

text \<open>
  A transport error in the middle of the stream, after a status of 200: the sink keeps
  what was delivered before it, and the call returns the error of the reader wrapped as
  an error of reading the body, not an error about the status.
\<close>

lemma StreamLogs_midstream_error:
  assumes "NewRequest_error L ''GET''
             (endpoint c @ ''/workflows/'' @ workflowName @ ''/logstream'') = None"
    and "httpClient c
           \<lparr>Method = ''GET'', URL = endpoint c @ ''/workflows/'' @ workflowName @ ''/logstream'',
            Header = [], content = None\<rparr> = Inr resp"
    and "StatusCode resp = 200" and "ending (Body resp) = Some err"
    and "accepts w sink (chunks (Body resp))"
  shows "fst (StreamLogs L c w sink workflowName) = Some (ErrorReadingBody 200 err)"
    and "fst (snd (StreamLogs L c w sink workflowName)) = sink @ concat (chunks (Body resp))"
  using assms
  by (simp_all add: StreamLogs_def NewRequestWithContext_def Copy_accepts)

subsection \<open>Diff and Sync\<close>

lemma Diff_targetOperation: "Diff L c input = targetOperation L c input ''diff''"
  by (simp add: Diff_def diff_def split: prod.splits sum.splits)

lemma Sync_targetOperation: "Sync L c input = targetOperation L c input ''sync''"
  by (simp add: Sync_def sync_def split: prod.splits sum.splits)

lemma targetOperation_invalid:
  "TargetOperation_Validate
     \<lparr>TargetOperation.Path = TargetOperationInput.Path input,
      TargetOperation.SHA = TargetOperationInput.SHA input,
      TargetOperation.Type = ty\<rparr> = Some err \<Longrightarrow>
   targetOperation L c input ty = (Inl err, [])"
  by (simp add: targetOperation_def)

lemma targetOperation_sent:
  assumes "r \<in> set (snd (targetOperation L c input ty))"
  shows "TargetOperation_Validate
           \<lparr>TargetOperation.Path = TargetOperationInput.Path input,
            TargetOperation.SHA = TargetOperationInput.SHA input,
            TargetOperation.Type = ty\<rparr> = None \<and>
         (\<exists>b. Marshal_TargetOperation L
                 \<lparr>TargetOperation.Path = TargetOperationInput.Path input,
                  TargetOperation.SHA = TargetOperationInput.SHA input,
                  TargetOperation.Type = ty\<rparr> = Inr b \<and>
              content r = Some b) \<and>
         Header r = [(''Authorization'', authToken c)]"
  using assms
  by (auto simp: targetOperation_def NewRequestWithContext_def Let_def
      split: option.splits sum.splits if_splits)

text \<open>
  C2. \<^verbatim>\<open>Diff\<close> and \<^verbatim>\<open>Sync\<close> are the shared target operation with the type \<^verbatim>\<open>diff\<close> and
  \<^verbatim>\<open>sync\<close>. The request built from the input holds its path, its SHA and that type. When
  its validation fails, the call returns the validation error and hands nothing to the
  transport; a request that does reach the transport carries the encoding of a request
  that passed validation.
\<close>

theorem Diff_Sync_validate_before_sending:
  "Diff L c input = targetOperation L c input ''diff'' \<and>
   Sync L c input = targetOperation L c input ''sync'' \<and>
   (TargetOperation_Validate
      \<lparr>TargetOperation.Path = TargetOperationInput.Path input,
       TargetOperation.SHA = TargetOperationInput.SHA input,
       TargetOperation.Type = ty\<rparr> = Some err \<longrightarrow>
    targetOperation L c input ty = (Inl err, [])) \<and>
   (\<forall>r \<in> set (snd (targetOperation L c input ty)).
      TargetOperation_Validate
        \<lparr>TargetOperation.Path = TargetOperationInput.Path input,
         TargetOperation.SHA = TargetOperationInput.SHA input,
         TargetOperation.Type = ty\<rparr> = None \<and>
      (\<exists>b. Marshal_TargetOperation L
              \<lparr>TargetOperation.Path = TargetOperationInput.Path input,
               TargetOperation.SHA = TargetOperationInput.SHA input,
               TargetOperation.Type = ty\<rparr> = Inr b \<and>
           content r = Some b))"
  using targetOperation_invalid [of input ty err L c] targetOperation_sent [of _ L c input ty]
  by (simp add: Diff_targetOperation Sync_targetOperation)

theorem Diff_Sync_validate_before_sending_witness:
  "Diff example_lib (example_client 200 [''wf-1''])
     (example_input\<lparr>TargetOperationInput.SHA := ''abc-123''\<rparr>) =
     (Inl (Errors [FieldError ''sha'' Alphanum None]), []) \<and>
   Sync example_lib (example_client 200 [''wf-1'']) example_input =
     (Inr ''wf-1'',
      [\<lparr>Method = ''POST'',
        URL = ''https://localhost:8443/projects/demo-proj/targets/demo_target/operations'',
        Header = [(''Authorization'', ''secret-token'')],
        content = Some ''infra/ abc123 sync''\<rparr>])"
proof -
  let ?c = "example_client 200 [''wf-1'']"
  let ?bad = "example_input\<lparr>TargetOperationInput.SHA := ''abc-123''\<rparr>"
  have v: "TargetOperation_Validate
             \<lparr>TargetOperation.Path = TargetOperationInput.Path ?bad,
              TargetOperation.SHA = TargetOperationInput.SHA ?bad,
              TargetOperation.Type = ''diff''\<rparr> =
           Some (Errors [FieldError ''sha'' Alphanum None])"
    by code_simp
  from Diff_Sync_validate_before_sending
         [of example_lib ?c ?bad "''diff''" "Errors [FieldError ''sha'' Alphanum None]"] v
  have d: "Diff example_lib ?c ?bad = (Inl (Errors [FieldError ''sha'' Alphanum None]), [])"
    by simp
  have s: "targetOperation example_lib ?c example_input ''sync'' =
     (Inr ''wf-1'',
      [\<lparr>Method = ''POST'',
        URL = ''https://localhost:8443/projects/demo-proj/targets/demo_target/operations'',
        Header = [(''Authorization'', ''secret-token'')],
        content = Some ''infra/ abc123 sync''\<rparr>])"
    by code_simp
  from Diff_Sync_validate_before_sending [of example_lib ?c example_input] s
  have "Sync example_lib ?c example_input =
     (Inr ''wf-1'',
      [\<lparr>Method = ''POST'',
        URL = ''https://localhost:8443/projects/demo-proj/targets/demo_target/operations'',
        Header = [(''Authorization'', ''secret-token'')],
        content = Some ''infra/ abc123 sync''\<rparr>])"
    by simp
  with d show ?thesis by simp
qed

subsection \<open>The Authorization header\<close>

lemma getRequest_sent: "r \<in> set (snd (getRequest L c u)) \<Longrightarrow> Header r = []"
  by (auto simp: getRequest_def NewRequestWithContext_def
      split: option.splits sum.splits if_splits)

lemma GetLogs_sent: "r \<in> set (snd (GetLogs L c n)) \<Longrightarrow> Header r = []"
proof -
  have "snd (GetLogs L c n) =
        snd (getRequest L c (endpoint c @ ''/workflows/'' @ n @ ''/logs''))"
    by (simp add: GetLogs_def split: prod.splits sum.splits)
  then show "r \<in> set (snd (GetLogs L c n)) \<Longrightarrow> Header r = []"
    by (simp add: getRequest_sent)
qed

lemma GetWorkflowStatus_sent: "r \<in> set (snd (GetWorkflowStatus L c n)) \<Longrightarrow> Header r = []"
proof -
  have "snd (GetWorkflowStatus L c n) =
        snd (getRequest L c (endpoint c @ ''/workflows/'' @ n))"
    by (simp add: GetWorkflowStatus_def split: prod.splits sum.splits)
  then show "r \<in> set (snd (GetWorkflowStatus L c n)) \<Longrightarrow> Header r = []"
    by (simp add: getRequest_sent)
qed

lemma GetWorkflows_sent: "r \<in> set (snd (GetWorkflows L c p t)) \<Longrightarrow> Header r = []"
proof -
  have "snd (GetWorkflows L c p t) =
        snd (getRequest L c
               (endpoint c @ ''/projects/'' @ p @ ''/targets/'' @ t @ ''/workflows''))"
    by (simp add: GetWorkflows_def split: prod.splits sum.splits)
  then show "r \<in> set (snd (GetWorkflows L c p t)) \<Longrightarrow> Header r = []"
    by (simp add: getRequest_sent)
qed

lemma StreamLogs_sent: "r \<in> set (snd (snd (StreamLogs L c w sink n))) \<Longrightarrow> Header r = []"
  by (auto simp: StreamLogs_def NewRequestWithContext_def
      split: option.splits sum.splits prod.splits if_splits)

lemma ExecuteWorkflow_sent:
  "r \<in> set (snd (ExecuteWorkflow L c input)) \<Longrightarrow>
     Header r = [(''Authorization'', authToken c)]"
  by (auto simp: ExecuteWorkflow_def NewRequestWithContext_def Let_def
      split: option.splits sum.splits if_splits)

text \<open>
  C3, as the claim states it, fails: \<^verbatim>\<open>GetLogs\<close> and \<^verbatim>\<open>StreamLogs\<close> are not among the two
  excepted queries, and the request each of them sends has no header at all.
\<close>

theorem GetLogs_StreamLogs_no_authorization:
  "snd (GetLogs example_lib (example_client 200 [''log line'']) ''wf-1'') =
     [\<lparr>Method = ''GET'', URL = ''https://localhost:8443/workflows/wf-1/logs'',
       Header = [], content = None\<rparr>] \<and>
   snd (snd (StreamLogs example_lib (example_client 200 [''log line'']) accepting [] ''wf-1'')) =
     [\<lparr>Method = ''GET'', URL = ''https://localhost:8443/workflows/wf-1/logstream'',
       Header = [], content = None\<rparr>]"
  by code_simp

text \<open>
  C3, amended. The three operations that post a body, \<^verbatim>\<open>Diff\<close>, \<^verbatim>\<open>Sync\<close> and
  \<^verbatim>\<open>ExecuteWorkflow\<close>, send every request with one header, \<^verbatim>\<open>Authorization\<close>, whose value is
  the client's token as it is stored. The four GET operations, \<^verbatim>\<open>GetWorkflowStatus\<close>,
  \<^verbatim>\<open>GetWorkflows\<close>, \<^verbatim>\<open>GetLogs\<close> and \<^verbatim>\<open>StreamLogs\<close>, send their request with no header.
\<close>

theorem authorization_on_posts_only:
  "(\<forall>r \<in> set (snd (Diff L c input)). Header r = [(''Authorization'', authToken c)]) \<and>
   (\<forall>r \<in> set (snd (Sync L c input)). Header r = [(''Authorization'', authToken c)]) \<and>
   (\<forall>r \<in> set (snd (ExecuteWorkflow L c i)). Header r = [(''Authorization'', authToken c)]) \<and>
   (\<forall>r \<in> set (snd (GetWorkflowStatus L c n)). Header r = []) \<and>
   (\<forall>r \<in> set (snd (GetWorkflows L c p t)). Header r = []) \<and>
   (\<forall>r \<in> set (snd (GetLogs L c n)). Header r = []) \<and>
   (\<forall>r \<in> set (snd (snd (StreamLogs L c w sink n))). Header r = [])"
  using targetOperation_sent [of _ L c input] ExecuteWorkflow_sent [of _ L c i]
    GetWorkflowStatus_sent [of _ L c n] GetWorkflows_sent [of _ L c p t]
    GetLogs_sent [of _ L c n] StreamLogs_sent [of _ L c w sink n]
  by (simp add: Diff_targetOperation Sync_targetOperation)

theorem authorization_on_posts_only_witness:
  "map Header (snd (Diff example_lib (example_client 200 [''wf-1'']) example_input)) =
     [[(''Authorization'', ''secret-token'')]] \<and>
   map Header (snd (ExecuteWorkflow example_lib (example_client 201 [''wf-2''])
                      ''workflow request'')) =
     [[(''Authorization'', ''secret-token'')]] \<and>
   map Header (snd (GetWorkflowStatus example_lib (example_client 200 [''status''])
                      ''wf-1'')) = [[]]"
proof -
  let ?c = "example_client 200 [''wf-1'']"
  have d: "map URL (snd (Diff example_lib ?c example_input)) =
             [''https://localhost:8443/projects/demo-proj/targets/demo_target/operations'']"
    by code_simp
  have e: "map URL (snd (ExecuteWorkflow example_lib (example_client 201 [''wf-2''])
                           ''workflow request'')) = [''https://localhost:8443/workflows'']"
    by code_simp
  have g: "map URL (snd (GetWorkflowStatus example_lib (example_client 200 [''status''])
                           ''wf-1'')) = [''https://localhost:8443/workflows/wf-1'']"
    by code_simp
  have t: "authToken (example_client code data) = ''secret-token''" for code data
    by (simp add: example_client_def)
  have one: "map f xs = [u] \<Longrightarrow> \<forall>r \<in> set xs. g r = v \<Longrightarrow> map g xs = [v]"
    for f :: "request \<Rightarrow> string" and g :: "request \<Rightarrow> (string \<times> string) list"
      and xs u v
    by (cases xs) auto
  note a = authorization_on_posts_only
             [of example_lib ?c example_input "''workflow request''" "''wf-1''"]
  note b = authorization_on_posts_only
             [of example_lib "example_client 201 [''wf-2'']" example_input
                 "''workflow request''" "''wf-1''"]
  note s = authorization_on_posts_only
             [of example_lib "example_client 200 [''status'']" example_input
                 "''workflow request''" "''wf-1''"]
  show ?thesis
    using one [OF d] one [OF e] one [OF g] a b s by (simp add: t)
qed

end
